theory Spec2Isabelle
  imports Main "HOL-Library.Sublist"
begin

section \<open>The firewall module of saltext-vmware\<close>

text \<open>
  The module \<^verbatim>\<open>vmware_firewall.py\<close> has two functions, \<^verbatim>\<open>get_firewall_status\<close> and
  \<^verbatim>\<open>enable_firewall_ruleset\<close>. Each builds one command string, is written to call the
  remote executor once per ESXi host and to collect the answers in a dictionary keyed by
  host.

  The model describes one call of a function body. Names are resolved as Python resolves
  them in this module. Its top level binds \<^verbatim>\<open>logging\<close>, \<^verbatim>\<open>sys\<close>, \<^verbatim>\<open>saltext\<close>, \<^verbatim>\<open>depends\<close>,
  \<^verbatim>\<open>ignores_kwargs\<close>, \<^verbatim>\<open>log\<close>, the names of the pyVmomi import, \<^verbatim>\<open>HAS_PYVMOMI\<close>,
  \<^verbatim>\<open>__virtualname__\<close>, \<^verbatim>\<open>__virtual__\<close> and the two functions. The bodies use three names
  that are bound nowhere: \<^verbatim>\<open>salt\<close>, \<^verbatim>\<open>CommandExecutionError\<close> and
  \<^verbatim>\<open>_format_firewall_stdout\<close>. Evaluating any of them raises \<open>NameError\<close>.

  The remote executor stays a parameter of the model, so that every statement holds
  whatever the remote side would answer, and the log of remote calls is part of the
  result, so that a statement can say that no remote call was made.

  The arguments are typed as far as the statements need: host names and the rule set name
  are strings, \<^verbatim>\<open>esxi_hosts\<close> is absent, a scalar or a list of strings, and the answer of
  the executor is a dictionary with an integer \<^verbatim>\<open>retcode\<close> and the two output texts.
\<close>

subsection \<open>Values and errors\<close>

text \<open>
  Exceptions are values of type \<open>error\<close>. \<open>NameError n\<close> is Python's error for the
  use of a name \<open>n\<close> that the module neither defines nor imports.
  \<open>CommandExecutionError\<close> is the exception class that the two \<^verbatim>\<open>raise\<close> statements
  name.
\<close>

datatype error = NameError string | CommandExecutionError string

text \<open>What a caller can pass as \<^verbatim>\<open>esxi_hosts\<close>: nothing, a scalar, or a list of host names.\<close>

datatype hosts_arg = HNone | HBool bool | HInt int | HStr string | HList "string list"

text \<open>Python's truth value, as \<^verbatim>\<open>if esxi_hosts:\<close> tests it.\<close>

fun truthy :: "hosts_arg \<Rightarrow> bool" where
  "truthy HNone = False"
| "truthy (HBool b) = b"
| "truthy (HInt i) = (i \<noteq> 0)"
| "truthy (HStr s) = (s \<noteq> [])"
| "truthy (HList hs) = (hs \<noteq> [])"


text \<open>What a caller can pass as \<^verbatim>\<open>ruleset_enable\<close>.\<close>

datatype enable_arg = ENone | EBool bool | EInt int | EStr string

text \<open>Decimal digits of a natural number, most significant first.\<close>

fun digits :: "nat \<Rightarrow> string" where
  "digits n =
     (if n < 10 then [''0123456789'' ! n]
      else digits (n div 10) @ [''0123456789'' ! (n mod 10)])"

declare digits.simps [simp del]

text \<open>Python's \<^verbatim>\<open>str(v)\<close>, which is what an empty replacement field \<^verbatim>\<open>{}\<close> of
  \<^verbatim>\<open>str.format\<close> inserts.\<close>

fun py_str :: "enable_arg \<Rightarrow> string" where
  "py_str ENone = ''None''"
| "py_str (EBool b) = (if b then ''True'' else ''False'')"
| "py_str (EInt i) = (if i < 0 then ''-'' @ digits (nat (- i)) else digits (nat i))"
| "py_str (EStr s) = s"

text \<open>Python's \<^verbatim>\<open>sub in s\<close> on strings.\<close>

fun contains :: "string \<Rightarrow> string \<Rightarrow> bool" where
  "contains sub [] = (sub = [])"
| "contains sub (c # cs) = (prefix sub (c # cs) \<or> contains sub cs)"

subsection \<open>The remote executor\<close>

text \<open>The connection arguments, passed unchanged to every remote call.\<close>

record conn =
  host :: string
  username :: string
  password :: string
  protocol :: "string option"
  port :: "int option"
  credstore :: "string option"

text \<open>One remote call: the connection arguments, the command, and the keyword argument
  \<^verbatim>\<open>esxi_host\<close>, which is absent when no host list was given.\<close>

record call =
  call_conn :: conn
  call_cmd :: string
  call_esxi_host :: "string option"

text \<open>The dictionary a remote call returns.\<close>

record response =
  retcode :: int
  stdout :: string
  stderr :: string

text \<open>
  The state of a run is the log of the remote calls made so far, each with its answer.
  An executor sees the log, so its answer may depend on the effects of earlier commands.
\<close>

type_synonym trace = "(call \<times> response) list"

type_synonym invoker = "trace \<Rightarrow> call \<Rightarrow> response"

text \<open>
  The expression \<^verbatim>\<open>salt.utils.vmware.esxcli(host, username, password, cmd, ...)\<close> of lines
  99, 124, 218 and 231. Python evaluates the callee first, and the first step of that is
  the lookup of the name \<^verbatim>\<open>salt\<close>. The module binds no such name: line 4 binds
  \<^verbatim>\<open>saltext\<close>, line 6 binds \<^verbatim>\<open>depends\<close> and \<^verbatim>\<open>ignores_kwargs\<close>. So the expression raises
  \<open>NameError\<close>, whatever the executor and the arguments are; the executor is not invoked
  and the log stays as it is.
\<close>

definition esxcli_call :: "invoker \<Rightarrow> call \<Rightarrow> trace \<Rightarrow> (error + response) \<times> trace" where
  "esxcli_call esxcli c tr = (Inl (NameError ''salt''), tr)"

subsection \<open>Dictionaries\<close>

text \<open>
  A Python dictionary keeps its keys in insertion order. \<^verbatim>\<open>ret.update({k: v})\<close> replaces
  the value of a key that is present, in place, and appends a new key at the end.
\<close>

type_synonym 'v dict = "(string \<times> 'v) list"

fun dict_update :: "string \<Rightarrow> 'v \<Rightarrow> 'v dict \<Rightarrow> 'v dict" where
  "dict_update k v [] = [(k, v)]"
| "dict_update k v ((k', v') # d) =
     (if k' = k then (k, v) # d else (k', v') # dict_update k v d)"

subsection \<open>\<^verbatim>\<open>get_firewall_status\<close>\<close>

definition status_cmd :: string where
  "status_cmd = ''network firewall ruleset list''"

text \<open>The per-host value of the status dictionary.\<close>

record status_entry =
  Error :: string
  success :: bool
  rulesets :: "(string \<times> bool) list option"

definition failed_entry :: "response \<Rightarrow> status_entry" where
  "failed_entry response =
     \<lparr>Error = stdout response, success = False, rulesets = None\<rparr>"

text \<open>
  The loop \<^verbatim>\<open>for esxi_host in esxi_hosts\<close> of lines 98 to 121. An exception of the call
  expression leaves the loop. On return code 0 the loop body evaluates
  \<^verbatim>\<open>_format_firewall_stdout(response)\<close>; the module has no such name.
\<close>

fun status_loop ::
  "invoker \<Rightarrow> conn \<Rightarrow> string list \<Rightarrow> status_entry dict \<Rightarrow> trace \<Rightarrow>
   (error + status_entry dict) \<times> trace" where
  "status_loop esxcli cn [] ret tr = (Inr ret, tr)"
| "status_loop esxcli cn (esxi_host # rest) ret tr =
     (case esxcli_call esxcli
             \<lparr>call_conn = cn, call_cmd = status_cmd, call_esxi_host = Some esxi_host\<rparr> tr of
        (Inl e, tr') \<Rightarrow> (Inl e, tr')
      | (Inr response, tr') \<Rightarrow>
          if retcode response \<noteq> 0
          then status_loop esxcli cn rest
                 (dict_update esxi_host (failed_entry response) ret) tr'
          else (Inl (NameError ''_format_firewall_stdout''), tr'))"

definition get_firewall_status ::
  "invoker \<Rightarrow> conn \<Rightarrow> hosts_arg \<Rightarrow> trace \<Rightarrow> (error + status_entry dict) \<times> trace" where
  "get_firewall_status esxcli cn esxi_hosts tr =
     (if truthy esxi_hosts then
        (case esxi_hosts of
           HList hs \<Rightarrow> status_loop esxcli cn hs [] tr
         | _ \<Rightarrow> (Inl (NameError ''CommandExecutionError''), tr))
      else
        (case esxcli_call esxcli
                \<lparr>call_conn = cn, call_cmd = status_cmd, call_esxi_host = None\<rparr> tr of
           (Inl e, tr') \<Rightarrow> (Inl e, tr')
         | (Inr response, tr') \<Rightarrow>
             if retcode response \<noteq> 0
             then (Inr (dict_update (host cn) (failed_entry response) []), tr')
             else (Inl (NameError ''_format_firewall_stdout''), tr')))"

subsection \<open>\<^verbatim>\<open>enable_firewall_ruleset\<close>\<close>

definition ruleset_cmd :: "enable_arg \<Rightarrow> string \<Rightarrow> string" where
  "ruleset_cmd ruleset_enable ruleset_name =
     ''network firewall ruleset set --enabled '' @ py_str ruleset_enable
       @ '' --ruleset-id='' @ ruleset_name"

text \<open>The loop of lines 217 to 228.\<close>

fun ruleset_loop ::
  "invoker \<Rightarrow> conn \<Rightarrow> string \<Rightarrow> string list \<Rightarrow> response dict \<Rightarrow> trace \<Rightarrow>
   (error + response dict) \<times> trace" where
  "ruleset_loop esxcli cn cmd [] ret tr = (Inr ret, tr)"
| "ruleset_loop esxcli cn cmd (esxi_host # rest) ret tr =
     (case esxcli_call esxcli
             \<lparr>call_conn = cn, call_cmd = cmd, call_esxi_host = Some esxi_host\<rparr> tr of
        (Inl e, tr') \<Rightarrow> (Inl e, tr')
      | (Inr response, tr') \<Rightarrow>
          ruleset_loop esxcli cn cmd rest (dict_update esxi_host response ret) tr')"

definition enable_firewall_ruleset ::
  "invoker \<Rightarrow> conn \<Rightarrow> enable_arg \<Rightarrow> string \<Rightarrow> hosts_arg \<Rightarrow> trace \<Rightarrow>
   (error + response dict) \<times> trace" where
  "enable_firewall_ruleset esxcli cn ruleset_enable ruleset_name esxi_hosts tr =
     (let cmd = ruleset_cmd ruleset_enable ruleset_name in
      if truthy esxi_hosts then
        (case esxi_hosts of
           HList hs \<Rightarrow> ruleset_loop esxcli cn cmd hs [] tr
         | _ \<Rightarrow> (Inl (NameError ''CommandExecutionError''), tr))
      else
        (case esxcli_call esxcli
                \<lparr>call_conn = cn, call_cmd = cmd, call_esxi_host = None\<rparr> tr of
           (Inl e, tr') \<Rightarrow> (Inl e, tr')
         | (Inr response, tr') \<Rightarrow> (Inr (dict_update (host cn) response []), tr')))"

subsection \<open>Example data\<close>

definition host1 :: conn where
  "host1 = \<lparr>host = ''host1'', username = ''root'', password = ''secret'',
             protocol = None, port = None, credstore = None\<rparr>"

definition listing :: response where
  "listing = \<lparr>retcode = 0,
               stdout = ''Name Enabled\<newline>syslog true\<newline>sshServer false\<newline>'',
               stderr = []\<rparr>"

definition unreachable :: response where
  "unreachable = \<lparr>retcode = 1, stdout = ''Error: unreachable'', stderr = []\<rparr>"

text \<open>An executor that would give the same answer to every call, and one that would answer
  for host \<open>A\<close> with the listing and for every other host with the failure.\<close>

definition always :: "response \<Rightarrow> invoker" where
  "always r tr c = r"

definition only_A_up :: invoker where
  "only_A_up tr c = (if call_esxi_host c = Some ''A'' then listing else unreachable)"

section \<open>Lemmas\<close>






section \<open>The claims\<close>









text \<open>
  C5, as the code has it. With \<^verbatim>\<open>ruleset_enable = True\<close> and \<^verbatim>\<open>ruleset_name = "syslog"\<close> the
  command string built is \<^verbatim>\<open>network firewall ruleset set --enabled True --ruleset-id=syslog\<close>:
  Python formats the boolean as \<^verbatim>\<open>True\<close>, so the command contains \<^verbatim>\<open>enabled True\<close> and
  \<^verbatim>\<open>ruleset-id=syslog\<close>.
\<close>

theorem toggle_syslog_command:
  "ruleset_cmd (EBool True) ''syslog''
     = ''network firewall ruleset set --enabled True --ruleset-id=syslog''
   \<and> contains ''enabled True'' (ruleset_cmd (EBool True) ''syslog'')
   \<and> contains ''ruleset-id=syslog'' (ruleset_cmd (EBool True) ''syslog'')"
  by (simp add: ruleset_cmd_def)

text \<open>
  The statement of C5 fails in its letter: the command built for \<^verbatim>\<open>ruleset_enable = True\<close>
  does not contain \<^verbatim>\<open>enabled true\<close>.
\<close>

theorem toggle_syslog_command_counterexample:
  "\<not> contains ''enabled true'' (ruleset_cmd (EBool True) ''syslog'')"
  by (simp add: ruleset_cmd_def)

text \<open>
  C1 at an input where the code breaks it. With the two targets \<open>A\<close> and \<open>B\<close> both
  functions raise \<open>NameError\<close> in the first iteration of the loop: no remote call is made
  and no dictionary is returned, whatever the remote side would answer.
\<close>

theorem explicit_targets_raise:
  "enable_firewall_ruleset only_A_up host1 (EBool True) ''syslog'' (HList [''A'', ''B'']) []
     = (Inl (NameError ''salt''), [])
   \<and> get_firewall_status (always unreachable) host1 (HList [''A'', ''B'']) []
     = (Inl (NameError ''salt''), [])"
  by (simp add: enable_firewall_ruleset_def get_firewall_status_def Let_def esxcli_call_def)

text \<open>
  C2 at an input where the code breaks it. With the bare string \<^verbatim>\<open>esx1\<close> as \<^verbatim>\<open>esxi_hosts\<close>
  both functions raise before any remote call, as C2 says, but what they raise is the
  \<open>NameError\<close> for the name of the exception class, not that exception.
\<close>

theorem scalar_targets_raise_name_error:
  "get_firewall_status (always unreachable) host1 (HStr ''esx1'') []
     = (Inl (NameError ''CommandExecutionError''), [])
   \<and> enable_firewall_ruleset (always unreachable) host1 (EBool False) ''sshServer''
       (HStr ''esx1'') []
     = (Inl (NameError ''CommandExecutionError''), [])"
  by (simp add: enable_firewall_ruleset_def get_firewall_status_def Let_def)

text \<open>
  C4 at an input where the code breaks it. The remote call for target \<open>B\<close> would answer
  with return code 1 and the text \<^verbatim>\<open>Error: unreachable\<close>. \<^verbatim>\<open>get_firewall_status\<close> raises
  \<open>NameError\<close> at the call expression, with a list of targets and with none: no entry
  with \<^verbatim>\<open>success = False\<close> is recorded and no dictionary is returned.
\<close>

theorem failed_target_not_recorded:
  "always unreachable [] \<lparr>call_conn = host1, call_cmd = status_cmd,
                           call_esxi_host = Some ''B''\<rparr>
     = \<lparr>retcode = 1, stdout = ''Error: unreachable'', stderr = ''''\<rparr>
   \<and> get_firewall_status (always unreachable) host1 (HList [''B'']) []
     = (Inl (NameError ''salt''), [])
   \<and> get_firewall_status (always unreachable) host1 HNone []
     = (Inl (NameError ''salt''), [])"
  by (simp add: get_firewall_status_def esxcli_call_def always_def unreachable_def)

text \<open>
  C6 at an input where the code breaks it. With no target list both functions raise
  \<open>NameError\<close> at the call expression: no remote call is made and no dictionary with the
  key \<^verbatim>\<open>host\<close> is returned.
\<close>

theorem implicit_target_status_raises:
  "get_firewall_status (always listing) host1 HNone []
     = (Inl (NameError ''salt''), [])
   \<and> enable_firewall_ruleset (always listing) host1 (EBool True) ''syslog'' HNone []
     = (Inl (NameError ''salt''), [])"
  by (simp add: get_firewall_status_def enable_firewall_ruleset_def Let_def esxcli_call_def)

text \<open>
  C7 at an input where the code breaks it. \<^verbatim>\<open>enable_firewall_ruleset\<close> raises \<open>NameError\<close>
  at the call expression, with one explicit target and with none: no remote execution
  record is returned for any target.
\<close>

theorem toggle_payload_not_returned:
  "enable_firewall_ruleset (always unreachable) host1 (EBool False) ''sshServer''
       (HList [''A'']) []
     = (Inl (NameError ''salt''), [])
   \<and> enable_firewall_ruleset (always unreachable) host1 (EBool False) ''sshServer'' HNone []
     = (Inl (NameError ''salt''), [])"
  by (simp add: enable_firewall_ruleset_def Let_def esxcli_call_def)

text \<open>
  C8 at the input of its example. The remote call for target \<open>A\<close> would answer with return
  code 0 and the table \<^verbatim>\<open>Name Enabled / syslog true / sshServer false\<close>, the one for
  target \<open>B\<close> with return code 1. \<^verbatim>\<open>get_firewall_status\<close> raises \<open>NameError\<close> at the call
  expression for \<open>A\<close>: no rule set record is produced.
\<close>

theorem status_example_raises:
  "only_A_up [] \<lparr>call_conn = host1, call_cmd = status_cmd, call_esxi_host = Some ''A''\<rparr>
     = \<lparr>retcode = 0,
        stdout = ''Name Enabled\<newline>syslog true\<newline>sshServer false\<newline>'',
        stderr = ''''\<rparr>
   \<and> get_firewall_status only_A_up host1 (HList [''A'', ''B'']) []
     = (Inl (NameError ''salt''), [])"
  by (simp add: get_firewall_status_def esxcli_call_def only_A_up_def listing_def)

end
